theory Spec2Isabelle
  imports Main "HOL-Library.Word"
begin

section \<open>Data model\<close>

text \<open>
  The pipeline of \<^verbatim>\<open>gmail_to_sheets.py\<close> (and its copies in \<^verbatim>\<open>api/process.py\<close> and
  \<^verbatim>\<open>debug_gmail_processor.py\<close>) works on Python dictionaries decoded from JSON.
  Exceptions are values of \<open>error\<close>; a function that may raise returns \<open>error + 'a\<close>.
\<close>

datatype error =
    KeyError | IndexError | AttributeError | TypeError | ValueError
  | OverflowError | DecodeError | AssertionError | BackendError

text \<open>
  A Python float is an IEEE double: a sign bit and 63 bits of exponent and mantissa.
  \<^verbatim>\<open>abs\<close> clears the sign bit and unary minus flips it; nothing else of float
  arithmetic is used by the code.
\<close>

datatype pyfloat = Float (negative: bool) (magnitude: "63 word")

definition fabs :: "pyfloat \<Rightarrow> pyfloat" where
  "fabs x = Float False (magnitude x)"

definition fneg :: "pyfloat \<Rightarrow> pyfloat" where
  "fneg x = Float (\<not> negative x) (magnitude x)"

text \<open>Values that \<^verbatim>\<open>json.loads\<close> and the Sheets API hand to the code.\<close>

datatype pyval =
    PNone | PBool bool | PInt int | PFloat pyfloat | PStr string
  | PList "pyval list" | PDict "(string \<times> pyval) list"

text \<open>
  A dict is an association list with each key at most once, in insertion order.
  \<open>dict_get d k\<close> is \<^verbatim>\<open>d.get(k)\<close>, \<open>dict_get_default d k v\<close> is \<^verbatim>\<open>d.get(k, v)\<close>
  and \<open>dict_set d k v\<close> is \<^verbatim>\<open>d[k] = v\<close>.
\<close>

type_synonym dict = "(string \<times> pyval) list"

definition dict_get_default :: "dict \<Rightarrow> string \<Rightarrow> pyval \<Rightarrow> pyval" where
  "dict_get_default d k v = (case map_of d k of None \<Rightarrow> v | Some x \<Rightarrow> x)"

definition dict_get :: "dict \<Rightarrow> string \<Rightarrow> pyval" where
  "dict_get d k = dict_get_default d k PNone"

primrec dict_set :: "dict \<Rightarrow> string \<Rightarrow> pyval \<Rightarrow> dict" where
  "dict_set [] k v = [(k, v)]"
| "dict_set (e # d) k v = (if fst e = k then (k, v) # d else e # dict_set d k v)"

text \<open>\<open>item xs i\<close> is \<^verbatim>\<open>xs[i]\<close> for a non-negative index: out of range it raises.\<close>

definition item :: "'a list \<Rightarrow> nat \<Rightarrow> error + 'a" where
  "item xs i = (if i < length xs then Inr (xs ! i) else Inl IndexError)"

text \<open>
  A message payload of the Gmail API: every key may be missing. The \<^verbatim>\<open>body\<close> of a
  part is a dict whose \<^verbatim>\<open>data\<close> key may be missing too.
\<close>

datatype part_body = Body (data: "string option")

datatype payload =
  Payload (mimeType: "string option") (body: "part_body option") (parts: "payload list option")

record email =
  msg_id :: string
  msg_payload :: payload

text \<open>
  What the code calls and does not define: functions of the Python library, the three
  backends, the clock and the process environment. They are parameters of the model,
  so every theorem holds whatever they compute.
  \<^item> \<open>b64decode_utf8 s\<close> is \<^verbatim>\<open>base64.urlsafe_b64decode(s).decode('utf-8')\<close>,
    \<open>None\<close> when either step raises;
  \<^item> \<open>html_other h\<close> is the sequence of \<^verbatim>\<open>handle_data\<close> calls that
    \<^verbatim>\<open>HTMLParser.feed(h)\<close> makes on markup other than plain tags and text (see
    \<open>html_feed\<close> below), \<open>None\<close> when it raises;
  \<^item> \<open>generate_content text date\<close> is the text of the classifier's reply to the prompt
    built from the email text and the current date, or the exception of the call (the
    prompt is a fixed template around these two, and within a run the reply is taken to
    depend on the prompt only);
  \<^item> \<open>strip\<close>, \<open>lower\<close> are \<^verbatim>\<open>str.strip\<close> and \<^verbatim>\<open>str.lower\<close>;
    \<open>json_loads\<close> is \<^verbatim>\<open>json.loads\<close>, \<open>None\<close> when it raises;
  \<^item> \<open>int_to_float\<close> and \<open>str_to_float\<close> are \<^verbatim>\<open>float\<close> on an int and on a str,
    \<open>None\<close> when it raises (OverflowError, ValueError);
  \<^item> \<open>str_other\<close> is \<^verbatim>\<open>str\<close> on numbers, lists and dicts;
  \<^item> \<open>today\<close>, \<open>timestamp\<close> are the two renderings of \<^verbatim>\<open>datetime.now()\<close>;
  \<^item> \<open>processor_user_id\<close> is the environment variable \<^verbatim>\<open>PROCESSOR_USER_ID\<close>;
  \<^item> \<open>telegram_available\<close> is \<^verbatim>\<open>TELEGRAM_AVAILABLE\<close>: the notifier module was imported;
  \<^item> \<open>emails\<close> is the result of \<^verbatim>\<open>get_emails\<close>; \<open>sheet_values\<close> is the answer of the
    Sheets API to the read of \<^verbatim>\<open>Sheet1!A:F\<close> (its \<^verbatim>\<open>values\<close>, or the exception);
  \<^item> \<open>sheets_append rows\<close> tells whether the append request of \<open>rows\<close> succeeds;
  \<^item> \<open>setup_error\<close> is the exception, if any, of authentication and client construction.
\<close>

record env =
  b64decode_utf8 :: "string \<Rightarrow> string option"
  html_other :: "string \<Rightarrow> string list option"
  generate_content :: "string \<Rightarrow> string \<Rightarrow> error + string"
  strip :: "string \<Rightarrow> string"
  lower :: "string \<Rightarrow> string"
  json_loads :: "string \<Rightarrow> pyval option"
  int_to_float :: "int \<Rightarrow> pyfloat option"
  str_to_float :: "string \<Rightarrow> pyfloat option"
  str_other :: "pyval \<Rightarrow> string"
  today :: string
  timestamp :: string
  processor_user_id :: "string option"
  telegram_available :: bool
  emails :: "email list"
  sheet_values :: "error + pyval list list"
  sheets_append :: "pyval list list \<Rightarrow> bool"
  setup_error :: "error option"

section \<open>Content extractor\<close>

text \<open>\<^verbatim>\<open>HTMLTextExtractor\<close>: the data chunks joined by single spaces.\<close>

fun get_text :: "string list \<Rightarrow> string" where
  "get_text [] = []"
| "get_text [x] = x"
| "get_text (x # y # zs) = x @ '' '' @ get_text (y # zs)"

text \<open>
  \<^verbatim>\<open>HTMLParser.feed\<close> on markup made of text and plain tags. The parser looks for the
  next \<^verbatim>\<open><\<close>, hands the text before it to \<^verbatim>\<open>handle_data\<close> in one call when there is
  any, and goes on behind the tag. \<open>lex\<close> cuts the markup into these pieces; an opening
  \<^verbatim>\<open><\<close> that is never closed gives \<open>None\<close>.
\<close>

datatype token = Data string | Tag string

definition data_token :: "string \<Rightarrow> token list" where
  "data_token cur = (if cur = [] then [] else [Data (rev cur)])"

fun lex :: "bool \<Rightarrow> string \<Rightarrow> string \<Rightarrow> token list option" where
  "lex False cur [] = Some (data_token cur)"
| "lex True cur [] = None"
| "lex False cur (c # cs) =
     (if c = CHR ''<'' then map_option ((@) (data_token cur)) (lex True [] cs)
      else lex False (c # cur) cs)"
| "lex True cur (c # cs) =
     (if c = CHR ''>'' then map_option ((#) (Tag (rev cur))) (lex False [] cs)
      else lex True (c # cur) cs)"

text \<open>
  A plain tag is \<^verbatim>\<open><name>\<close> or \<^verbatim>\<open></name>\<close>, the name made of ASCII letters and digits
  and starting with a letter. The elements whose content the parser does not scan for
  tags (\<^verbatim>\<open>script\<close>, \<^verbatim>\<open>style\<close>, and in later versions of the library the others listed)
  are left out, in any case of letters; so is text with a character reference.
\<close>

definition lower_letters :: string where
  "lower_letters = ''abcdefghijklmnopqrstuvwxyz''"

definition upper_letters :: string where
  "upper_letters = ''ABCDEFGHIJKLMNOPQRSTUVWXYZ''"

definition ascii_lower :: "string \<Rightarrow> string" where
  "ascii_lower s =
     map (\<lambda>c. case map_of (zip upper_letters lower_letters) c of None \<Rightarrow> c | Some l \<Rightarrow> l) s"

definition unscanned_elements :: "string list" where
  "unscanned_elements =
     [''script'', ''style'', ''textarea'', ''title'', ''plaintext'', ''xmp'', ''iframe'',
      ''noembed'', ''noframes'', ''noscript'']"

definition plain_name :: "string \<Rightarrow> bool" where
  "plain_name n =
     (case n of
        [] \<Rightarrow> False
      | c # cs \<Rightarrow>
          c \<in> set (lower_letters @ upper_letters) \<and>
          list_all (\<lambda>x. x \<in> set (lower_letters @ upper_letters @ ''0123456789'')) cs \<and>
          ascii_lower n \<notin> set unscanned_elements)"

fun plain_token :: "token \<Rightarrow> bool" where
  "plain_token (Data s) = (CHR ''&'' \<notin> set s)"
| "plain_token (Tag s) = (case s of [] \<Rightarrow> False | c # cs \<Rightarrow> if c = CHR ''/'' then plain_name cs else plain_name s)"

fun data_of :: "token list \<Rightarrow> string list" where
  "data_of [] = []"
| "data_of (Data s # ts) = s # data_of ts"
| "data_of (Tag s # ts) = data_of ts"

text \<open>
  \<open>html_feed env h\<close> is the list \<^verbatim>\<open>parser.text\<close> after \<^verbatim>\<open>parser.feed(h)\<close>, or \<open>None\<close>
  when \<^verbatim>\<open>feed\<close> raises (it does on \<^verbatim>\<open><![foo[bar]]>\<close>).
\<close>

definition html_feed :: "env \<Rightarrow> string \<Rightarrow> string list option" where
  "html_feed env html_content =
     (case lex False [] html_content of
        None \<Rightarrow> html_other env html_content
      | Some ts \<Rightarrow>
          if list_all plain_token ts then Some (data_of ts) else html_other env html_content)"

text \<open>\<open>body_data b\<close> is \<^verbatim>\<open>b.get('data', '')\<close>.\<close>

definition body_data :: "part_body \<Rightarrow> string" where
  "body_data b = (case data b of None \<Rightarrow> [] | Some s \<Rightarrow> s)"

text \<open>Python's truth value of a result that is \<^verbatim>\<open>None\<close> or a string.\<close>

definition truthy :: "string option \<Rightarrow> bool" where
  "truthy r = (case r of None \<Rightarrow> False | Some s \<Rightarrow> s \<noteq> [])"

definition decode_plain :: "env \<Rightarrow> string \<Rightarrow> error + string option" where
  "decode_plain env d =
     (case b64decode_utf8 env d of None \<Rightarrow> Inl DecodeError | Some t \<Rightarrow> Inr (Some t))"

definition decode_html :: "env \<Rightarrow> string \<Rightarrow> error + string option" where
  "decode_html env d =
     (case b64decode_utf8 env d of
        None \<Rightarrow> Inl DecodeError
      | Some html_content \<Rightarrow>
          (case html_feed env html_content of
             None \<Rightarrow> Inl AssertionError
           | Some chunks \<Rightarrow> Inr (Some (get_text chunks))))"

text \<open>
  \<^verbatim>\<open>extract_email_body\<close> (the same text in \<^verbatim>\<open>gmail_to_sheets.py\<close>, \<^verbatim>\<open>api/process.py\<close>
  and \<^verbatim>\<open>debug_gmail_processor.py\<close>); \<open>extract_parts\<close> is its loop over
  \<^verbatim>\<open>message_payload['parts']\<close>. \<^verbatim>\<open>part['body']\<close> raises on a part with no body, and
  nothing catches an error of the decoding or of the markup parser.
\<close>

fun extract_email_body :: "env \<Rightarrow> payload \<Rightarrow> error + string option"
  and extract_parts :: "env \<Rightarrow> payload list \<Rightarrow> error + string option" where
  "extract_email_body env (Payload mt b (Some ps)) = extract_parts env ps"
| "extract_email_body env (Payload mt b None) =
     (let d = (case b of None \<Rightarrow> [] | Some bd \<Rightarrow> body_data bd) in
      if d \<noteq> [] then
        (if mt = Some ''text/html'' then decode_html env d else decode_plain env d)
      else Inr None)"
| "extract_parts env [] = Inr None"
| "extract_parts env (p # rest) =
     (if mimeType p = Some ''text/plain'' then
        (case body p of None \<Rightarrow> Inl KeyError
         | Some bd \<Rightarrow>
             if body_data bd \<noteq> [] then decode_plain env (body_data bd)
             else extract_parts env rest)
      else if mimeType p = Some ''text/html'' then
        (case body p of None \<Rightarrow> Inl KeyError
         | Some bd \<Rightarrow>
             if body_data bd \<noteq> [] then decode_html env (body_data bd)
             else extract_parts env rest)
      else if parts p \<noteq> None then
        (case extract_email_body env p of
           Inl e \<Rightarrow> Inl e
         | Inr r \<Rightarrow> if truthy r then Inr r else extract_parts env rest)
      else extract_parts env rest)"

section \<open>Classifier adapter and sign normalisation\<close>

text \<open>
  \<open>find_sub sep s\<close> cuts \<open>s\<close> at the leftmost occurrence of \<open>sep\<close>. With it,
  \<open>contains sep s\<close> is \<^verbatim>\<open>sep in s\<close>, \<open>split_item0 sep s\<close> is \<^verbatim>\<open>s.split(sep)[0]\<close> and
  \<open>split_item1 sep s\<close> is \<^verbatim>\<open>s.split(sep)[1]\<close>, which raises when \<open>sep\<close> does not occur.
\<close>

fun find_sub :: "string \<Rightarrow> string \<Rightarrow> (string \<times> string) option" where
  "find_sub sep [] = (if sep = [] then Some ([], []) else None)"
| "find_sub sep (c # cs) =
     (if take (length sep) (c # cs) = sep then Some ([], drop (length sep) (c # cs))
      else (case find_sub sep cs of None \<Rightarrow> None | Some (a, b) \<Rightarrow> Some (c # a, b)))"

definition contains :: "string \<Rightarrow> string \<Rightarrow> bool" where
  "contains sep s = (find_sub sep s \<noteq> None)"

definition split_item0 :: "string \<Rightarrow> string \<Rightarrow> string" where
  "split_item0 sep s = (case find_sub sep s of None \<Rightarrow> s | Some (a, b) \<Rightarrow> a)"

definition split_item1 :: "string \<Rightarrow> string \<Rightarrow> error + string" where
  "split_item1 sep s =
     (case find_sub sep s of None \<Rightarrow> Inl IndexError | Some (a, b) \<Rightarrow> Inr (split_item0 sep b))"

definition fence :: string where
  "fence = [CHR 0x60, CHR 0x60, CHR 0x60]"

definition fence_json :: string where
  "fence_json = fence @ ''json''"

text \<open>The removal of a markdown code fence around the reply.\<close>

definition clean_response :: "env \<Rightarrow> string \<Rightarrow> error + string" where
  "clean_response env response_text =
     (if contains fence_json response_text then
        (case split_item1 fence_json response_text of
           Inl e \<Rightarrow> Inl e
         | Inr u \<Rightarrow> Inr (strip env (split_item0 fence u)))
      else if contains fence response_text then
        (case split_item1 fence response_text of
           Inl e \<Rightarrow> Inl e
         | Inr u \<Rightarrow> Inr (strip env (split_item0 fence u)))
      else Inr response_text)"

text \<open>\<^verbatim>\<open>float(v)\<close>: \<^verbatim>\<open>1.0\<close> has the bits \<open>0x3FF0000000000000\<close>.\<close>

definition py_float :: "env \<Rightarrow> pyval \<Rightarrow> error + pyfloat" where
  "py_float env v =
     (case v of
        PFloat f \<Rightarrow> Inr f
      | PBool b \<Rightarrow> Inr (Float False (if b then 0x3FF0000000000000 else 0))
      | PInt i \<Rightarrow> (case int_to_float env i of None \<Rightarrow> Inl OverflowError | Some f \<Rightarrow> Inr f)
      | PStr s \<Rightarrow> (case str_to_float env s of None \<Rightarrow> Inl ValueError | Some f \<Rightarrow> Inr f)
      | _ \<Rightarrow> Inl TypeError)"

text \<open>
  The block of \<^verbatim>\<open>parse_email_with_gemini\<close> that sets the sign of the amount from the
  transaction type (\<^verbatim>\<open>gmail_to_sheets.py\<close>, lines 301 to 312).
\<close>

definition sign_amount :: "env \<Rightarrow> dict \<Rightarrow> error + dict" where
  "sign_amount env parsed_data =
     (if dict_get parsed_data ''amount'' \<noteq> PNone then
        (case py_float env (dict_get parsed_data ''amount'') of
           Inl e \<Rightarrow> Inl e
         | Inr f \<Rightarrow>
             let amount = fabs f;
                 amount = (if dict_get parsed_data ''transaction_type'' = PStr ''expense''
                           then fneg amount else fabs amount)
             in Inr (dict_set parsed_data ''amount'' (PFloat amount)))
      else Inr parsed_data)"

text \<open>
  \<^verbatim>\<open>parse_email_with_gemini\<close>: every exception of its body is caught and turned into
  \<^verbatim>\<open>None\<close>. A reply that is JSON but not an object has no \<^verbatim>\<open>get\<close>, which raises.
\<close>

definition parse_body :: "env \<Rightarrow> string \<Rightarrow> error + dict" where
  "parse_body env email_text =
     (case generate_content env email_text (today env) of
        Inl e \<Rightarrow> Inl e
      | Inr response_text \<Rightarrow>
          (case clean_response env response_text of
             Inl e \<Rightarrow> Inl e
           | Inr cleaned \<Rightarrow>
               (case json_loads env cleaned of
                  None \<Rightarrow> Inl ValueError
                | Some (PDict parsed_data) \<Rightarrow> sign_amount env parsed_data
                | Some _ \<Rightarrow> Inl AttributeError)))"

definition parse_email_with_gemini :: "env \<Rightarrow> string \<Rightarrow> dict option" where
  "parse_email_with_gemini env email_text =
     (if email_text = [] then None
      else (case parse_body env email_text of Inl e \<Rightarrow> None | Inr d \<Rightarrow> Some d))"

section \<open>Deduplication\<close>

text \<open>\<^verbatim>\<open>str(v)\<close>.\<close>

definition py_str :: "env \<Rightarrow> pyval \<Rightarrow> string" where
  "py_str env v =
     (case v of
        PNone \<Rightarrow> ''None''
      | PBool b \<Rightarrow> (if b then ''True'' else ''False'')
      | PStr s \<Rightarrow> s
      | _ \<Rightarrow> str_other env v)"

definition key_fields :: "string list" where
  "key_fields = [''date'', ''amount'', ''category'', ''description'']"

text \<open>The inner loop of \<^verbatim>\<open>is_duplicate\<close>: it leaves at the first field that differs.\<close>

fun fields_match :: "env \<Rightarrow> dict \<Rightarrow> dict \<Rightarrow> string list \<Rightarrow> bool" where
  "fields_match env new_entry existing [] = True"
| "fields_match env new_entry existing (field # more_fields) =
     (let new_val = lower env (py_str env (dict_get_default new_entry field (PStr [])));
          existing_val = lower env (py_str env (dict_get_default existing field (PStr [])))
      in if new_val \<noteq> existing_val then False
         else fields_match env new_entry existing more_fields)"

fun is_duplicate :: "env \<Rightarrow> dict \<Rightarrow> dict list \<Rightarrow> bool" where
  "is_duplicate env new_entry [] = False"
| "is_duplicate env new_entry (existing # existing_entries) =
     (if fields_match env new_entry existing key_fields then True
      else is_duplicate env new_entry existing_entries)"

section \<open>Reading the store\<close>

definition headers :: "string list" where
  "headers = [''date'', ''amount'', ''category'', ''description'', ''user_id'', ''timestamp'']"

text \<open>
  The comprehension \<^verbatim>\<open>{headers[i]: padded_row[i] for i in range(len(headers))}\<close>, with
  both index accesses checked.
\<close>

fun entry_of :: "string list \<Rightarrow> pyval list \<Rightarrow> nat list \<Rightarrow> dict \<Rightarrow> error + dict" where
  "entry_of hs padded_row [] entry = Inr entry"
| "entry_of hs padded_row (i # is) entry =
     (case item hs i of
        Inl e \<Rightarrow> Inl e
      | Inr h \<Rightarrow>
          (case item padded_row i of
             Inl e \<Rightarrow> Inl e
           | Inr v \<Rightarrow> entry_of hs padded_row is (dict_set entry h v)))"

definition pad_row :: "pyval list \<Rightarrow> pyval list" where
  "pad_row row = row @ replicate (length headers - length row) (PStr [])"

fun existing_rows :: "pyval list list \<Rightarrow> error + dict list" where
  "existing_rows [] = Inr []"
| "existing_rows (row # rows) =
     (case entry_of headers (pad_row row) [0..<length headers] [] of
        Inl e \<Rightarrow> Inl e
      | Inr entry \<Rightarrow>
          (case existing_rows rows of
             Inl e \<Rightarrow> Inl e
           | Inr existing_data \<Rightarrow> Inr (entry # existing_data)))"

text \<open>\<^verbatim>\<open>get_existing_data\<close>: any exception of its body gives the empty list.\<close>

definition get_existing_data :: "env \<Rightarrow> dict list" where
  "get_existing_data env =
     (case sheet_values env of
        Inl e \<Rightarrow> []
      | Inr values \<Rightarrow>
          if values = [] \<or> length values \<le> 1 then []
          else (case existing_rows (tl values) of Inl e \<Rightarrow> [] | Inr existing_data \<Rightarrow> existing_data))"

section \<open>Batch orchestrator\<close>

text \<open>
  The effects of a run on the three backends: the messages for which
  \<^verbatim>\<open>mark_email_processed\<close> was called (in call order), the batches of rows that the
  Sheets API accepted, and the calls of the notifier.
\<close>

datatype notification =
    BatchNotification nat string
  | TransactionNotification dict string

record world =
  handled :: "string list"
  appended :: "pyval list list list"
  notifications :: "notification list"

text \<open>The local variables of \<^verbatim>\<open>process_gmail_account\<close> that the loop updates.\<close>

record staged =
  all_data_rows :: "pyval list list"
  duplicate_count :: nat
  processed_transactions :: "dict list"

definition mark_email_processed :: "string \<Rightarrow> world \<Rightarrow> world" where
  "mark_email_processed message_id w = w\<lparr>handled := handled w @ [message_id]\<rparr>"

definition make_entry :: "env \<Rightarrow> dict \<Rightarrow> dict" where
  "make_entry env parsed_data =
     [(''date'', dict_get_default parsed_data ''date'' (PStr (today env))),
      (''amount'', dict_get_default parsed_data ''amount'' (PInt 0)),
      (''category'', dict_get_default parsed_data ''category'' (PStr ''Lainnya'')),
      (''description'', dict_get_default parsed_data ''description'' (PStr []))]"

text \<open>
  The row of an entry: \<^verbatim>\<open>entry['date']\<close> and the three other subscripts read keys that
  \<open>make_entry\<close> has just set, so none of them raises.
\<close>

definition make_row :: "env \<Rightarrow> string \<Rightarrow> dict \<Rightarrow> pyval list" where
  "make_row env user_id entry =
     [dict_get entry ''date'',
      dict_get entry ''amount'',
      dict_get entry ''category'',
      dict_get entry ''description'',
      PStr user_id,
      PStr (timestamp env)]"

text \<open>
  The loop over the candidate messages. An exception of the extractor leaves the loop
  (the handler is the one around the whole run).
\<close>

fun process_loop ::
  "env \<Rightarrow> string \<Rightarrow> dict list \<Rightarrow> email list \<Rightarrow> staged \<Rightarrow> world \<Rightarrow> error option \<times> staged \<times> world" where
  "process_loop env user_id existing_data [] st w = (None, st, w)"
| "process_loop env user_id existing_data (email # rest) st w =
     (case extract_email_body env (msg_payload email) of
        Inl e \<Rightarrow> (Some e, st, w)
      | Inr None \<Rightarrow> process_loop env user_id existing_data rest st w
      | Inr (Some email_body) \<Rightarrow>
          if email_body = [] then process_loop env user_id existing_data rest st w
          else
            (case parse_email_with_gemini env email_body of
               None \<Rightarrow> process_loop env user_id existing_data rest st w
             | Some parsed_data \<Rightarrow>
                 if parsed_data = [] then process_loop env user_id existing_data rest st w
                 else if is_duplicate env (make_entry env parsed_data) existing_data then
                   process_loop env user_id existing_data rest
                     (st\<lparr>duplicate_count := duplicate_count st + 1\<rparr>)
                     (mark_email_processed (msg_id email) w)
                 else
                   process_loop env user_id existing_data rest
                     (st\<lparr>all_data_rows :=
                           all_data_rows st @ [make_row env user_id (make_entry env parsed_data)],
                         processed_transactions :=
                           processed_transactions st @ [make_entry env parsed_data]\<rparr>)
                     (mark_email_processed (msg_id email) w)))"

text \<open>\<^verbatim>\<open>append_to_sheet\<close>: a failure of the append request is caught inside.\<close>

definition append_to_sheet :: "env \<Rightarrow> pyval list list \<Rightarrow> bool \<Rightarrow> world \<Rightarrow> world" where
  "append_to_sheet env data_rows skip_header w =
     (let rows_to_append =
            (if skip_header \<and> length data_rows > 1 then tl data_rows else data_rows)
      in if rows_to_append = [] then w
         else if sheets_append env rows_to_append
           then w\<lparr>appended := appended w @ [rows_to_append]\<rparr>
           else w)"

definition send_notifications :: "env \<Rightarrow> string \<Rightarrow> nat \<Rightarrow> dict list \<Rightarrow> world \<Rightarrow> world" where
  "send_notifications env account_id transactions_count transactions w =
     (if telegram_available env \<and> transactions_count > 0 then
        (if transactions_count > 5 then
           w\<lparr>notifications := notifications w @ [BatchNotification transactions_count account_id]\<rparr>
         else
           w\<lparr>notifications := notifications w @
                map (\<lambda>t. TransactionNotification t account_id) transactions\<rparr>)
      else w)"

definition header_row :: "pyval list" where
  "header_row = [PStr ''Date'', PStr ''Amount'', PStr ''Category'', PStr ''Description'',
                 PStr ''User ID'', PStr ''Timestamp'']"

definition email_processor_user_id :: "env \<Rightarrow> string \<Rightarrow> string" where
  "email_processor_user_id env account_id =
     (case processor_user_id env of None \<Rightarrow> ''email-processor-'' @ account_id | Some u \<Rightarrow> u)"

definition init_staged :: staged where
  "init_staged = \<lparr>all_data_rows = [header_row], duplicate_count = 0, processed_transactions = []\<rparr>"

text \<open>The part of a run after the loop: the batched append and the notifications.\<close>

definition commit_and_notify ::
  "env \<Rightarrow> string \<Rightarrow> dict list \<Rightarrow> staged \<Rightarrow> world \<Rightarrow> world" where
  "commit_and_notify env account_id existing_data st w =
     (if length (all_data_rows st) > 1 then
        (let should_skip_header = (length existing_data > 0);
             w1 = append_to_sheet env (all_data_rows st) should_skip_header w;
             transactions_count = length (all_data_rows st) - 1
         in send_notifications env account_id transactions_count (processed_transactions st) w1)
      else w)"

text \<open>
  \<^verbatim>\<open>process_gmail_account\<close>: what the caller gets (a value, or an exception) and the
  world after the run. The function has no \<^verbatim>\<open>return\<close> with a value and its body is
  inside one handler that catches every exception.
\<close>

definition process_gmail_account :: "env \<Rightarrow> string \<Rightarrow> world \<Rightarrow> (error + pyval) \<times> world" where
  "process_gmail_account env account_id w =
     (case setup_error env of
        Some e \<Rightarrow> (Inr PNone, w)
      | None \<Rightarrow>
          if emails env = [] then (Inr PNone, w)
          else
            (case process_loop env (email_processor_user_id env account_id)
                    (get_existing_data env) (emails env) init_staged w of
               (Some e, st, w') \<Rightarrow> (Inr PNone, w')
             | (None, st, w') \<Rightarrow>
                 (Inr PNone, commit_and_notify env account_id (get_existing_data env) st w')))"

section \<open>Notions used by the statements\<close>

text \<open>What \<^verbatim>\<open>is_duplicate\<close> compares for a field: its value as a string, in lower case.\<close>

definition compared :: "env \<Rightarrow> dict \<Rightarrow> string \<Rightarrow> string" where
  "compared env d field = lower env (py_str env (dict_get_default d field (PStr [])))"

text \<open>The cell of a stored row in column \<open>j\<close>, the empty string where the row is short.\<close>

definition cell :: "pyval list \<Rightarrow> nat \<Rightarrow> pyval" where
  "cell row j = (if j < length row then row ! j else PStr [])"

definition record_of :: "pyval list \<Rightarrow> dict" where
  "record_of row = map (\<lambda>j. (headers ! j, cell row j)) [0..<6]"







text \<open>
  What the loop sees of a candidate message: its extraction gives no text, its
  classification fails, it classifies to an existing record, or to a new one (with the
  object that the adapter returned).
\<close>

definition extraction_empty :: "env \<Rightarrow> email \<Rightarrow> bool" where
  "extraction_empty env email =
     (case extract_email_body env (msg_payload email) of
        Inl e \<Rightarrow> False
      | Inr r \<Rightarrow> \<not> truthy r)"

definition classification_failed :: "env \<Rightarrow> email \<Rightarrow> bool" where
  "classification_failed env email =
     (case extract_email_body env (msg_payload email) of
        Inr (Some t) \<Rightarrow> t \<noteq> [] \<and> parse_email_with_gemini env t = None
      | _ \<Rightarrow> False)"

definition classified_duplicate :: "env \<Rightarrow> dict list \<Rightarrow> email \<Rightarrow> bool" where
  "classified_duplicate env existing_data email =
     (case extract_email_body env (msg_payload email) of
        Inr (Some t) \<Rightarrow>
          t \<noteq> [] \<and>
          (case parse_email_with_gemini env t of
             None \<Rightarrow> False
           | Some d \<Rightarrow> d \<noteq> [] \<and> is_duplicate env (make_entry env d) existing_data)
      | _ \<Rightarrow> False)"

definition classified_new :: "env \<Rightarrow> dict list \<Rightarrow> email \<Rightarrow> dict \<Rightarrow> bool" where
  "classified_new env existing_data email d =
     (case extract_email_body env (msg_payload email) of
        Inr (Some t) \<Rightarrow>
          t \<noteq> [] \<and> parse_email_with_gemini env t = Some d \<and> d \<noteq> [] \<and>
          \<not> is_duplicate env (make_entry env d) existing_data
      | _ \<Rightarrow> False)"

section \<open>An environment for the examples\<close>

text \<open>
  The examples below run the model in an environment that agrees with CPython 3 on the
  arguments they use: the base64 strings are the encodings of the texts beside them,
  \<open>0x40D3880000000000\<close> are the bits of \<^verbatim>\<open>20000.0\<close>, \<^verbatim>\<open>float\<close> refuses the string
  \<^verbatim>\<open>Rp 20.000\<close> and the integer \<open>10 ^ 309\<close>, the markup parser raises on
  \<^verbatim>\<open><![foo[bar]]>\<close>, and the classifier's replies are made up (a fenced object, an
  object with a string amount, a reply that is not JSON, six bare objects).
\<close>

definition is_space :: "char \<Rightarrow> bool" where
  "is_space c = (c \<in> set [CHR '' '', CHR 0x09, CHR 0x0A, CHR 0x0B, CHR 0x0C, CHR 0x0D,
                           CHR 0x1C, CHR 0x1D, CHR 0x1E, CHR 0x1F])"

definition ascii_strip :: "string \<Rightarrow> string" where
  "ascii_strip s = rev (dropWhile is_space (rev (dropWhile is_space s)))"

definition sample_b64decode_utf8 :: "string \<Rightarrow> string option" where
  "sample_b64decode_utf8 =
     map_of [(''PHA-QmVsaSBrb3BpIDIwMDAwPC9wPg=='', ''<p>Beli kopi 20000</p>''),
             (''QmVsaSBrb3BpIDIwMDAw'', ''Beli kopi 20000''),
             (''QmF5YXIgbGlzdHJpayA1MDAwMA=='', ''Bayar listrik 50000''),
             (''PGJyPg=='', ''<br>''),
             (''PCFbZm9vW2Jhcl1dPg=='', ''<![foo[bar]]>''),
             (''YQ=='', ''a''), (''Yg=='', ''b''), (''Yw=='', ''c''),
             (''ZA=='', ''d''), (''ZQ=='', ''e''), (''Zg=='', ''f'')]"

definition sample_generate_content :: "string \<Rightarrow> string \<Rightarrow> error + string" where
  \<open>sample_generate_content email_text current_date =
     (if email_text = ''Beli kopi 20000'' then
        Inr (fence_json @ '' {"amount": 20000, "transaction_type": "expense"} '' @ fence)
      else if email_text = ''Beli pulsa Rp 20.000'' then
        Inr ''{"amount": "Rp 20.000", "transaction_type": "expense"}''
      else if email_text = ''Bayar listrik 50000'' then Inr ''Maaf, saya tidak tahu.''
      else if email_text \<in> set [''a'', ''b'', ''c'', ''d'', ''e'', ''f''] then
        Inr (''{"description": "'' @ email_text @ ''"}'')
      else Inl BackendError)\<close>

definition sample_json_loads :: "string \<Rightarrow> pyval option" where
  \<open>sample_json_loads s =
     (if s = ''{"amount": 20000, "transaction_type": "expense"}'' then
        Some (PDict [(''amount'', PInt 20000), (''transaction_type'', PStr ''expense'')])
      else if s = ''{"amount": "Rp 20.000", "transaction_type": "expense"}'' then
        Some (PDict [(''amount'', PStr ''Rp 20.000''), (''transaction_type'', PStr ''expense'')])
      else
        map_of (map (\<lambda>t. (''{"description": "'' @ t @ ''"}'', PDict [(''description'', PStr t)]))
                  [''a'', ''b'', ''c'', ''d'', ''e'', ''f'']) s)\<close>

definition sample_str_other :: "pyval \<Rightarrow> string" where
  "sample_str_other v =
     (if v = PInt 0 then ''0''
      else if v = PFloat (Float True 0x40D3880000000000) then ''-20000.0''
      else [])"

definition plain_message :: "string \<Rightarrow> string \<Rightarrow> email" where
  "plain_message i d =
     \<lparr>msg_id = i, msg_payload = Payload (Some ''text/plain'') (Some (Body (Some d))) None\<rparr>"

definition html_message :: "string \<Rightarrow> string \<Rightarrow> email" where
  "html_message i d =
     \<lparr>msg_id = i, msg_payload = Payload (Some ''text/html'') (Some (Body (Some d))) None\<rparr>"

definition six_messages :: "email list" where
  "six_messages =
     [plain_message ''m1'' ''YQ=='', plain_message ''m2'' ''Yg=='', plain_message ''m3'' ''Yw=='',
      plain_message ''m4'' ''ZA=='', plain_message ''m5'' ''ZQ=='', plain_message ''m6'' ''Zg=='']"

definition sample_env :: env where
  "sample_env =
     \<lparr>b64decode_utf8 = sample_b64decode_utf8,
      html_other = (\<lambda>h. None),
      generate_content = sample_generate_content,
      strip = ascii_strip,
      lower = ascii_lower,
      json_loads = sample_json_loads,
      int_to_float = (\<lambda>i. if i = 20000 then Some (Float False 0x40D3880000000000) else None),
      str_to_float = (\<lambda>s. None),
      str_other = sample_str_other,
      today = ''2024-01-01'',
      timestamp = ''2024-01-01 12:00:00'',
      processor_user_id = None,
      telegram_available = False,
      emails = six_messages,
      sheet_values = Inr [header_row],
      sheets_append = (\<lambda>rows. True),
      setup_error = None\<rparr>"

text \<open>A sheet with two stored rows, the first one short of its last two cells.\<close>

definition stored_sheet :: "pyval list list" where
  "stored_sheet =
     [header_row,
      [PStr ''2024-01-01'', PStr ''0'', PStr ''LAINNYA'', PStr ''A''],
      [PStr ''2024-01-01'', PStr ''0'', PStr ''Lainnya'', PStr ''b'', PStr ''email-processor-acct'',
       PStr ''2024-01-01 10:00:00'']]"

definition world0 :: world where
  "world0 = \<lparr>handled = [], appended = [], notifications = []\<rparr>"

text \<open>Payloads: a leaf with a media type and its data, and a container of parts.\<close>

definition leaf :: "string \<Rightarrow> string option \<Rightarrow> payload" where
  "leaf mt d = Payload (Some mt) (Some (Body d)) None"

definition multipart :: "payload list \<Rightarrow> payload" where
  "multipart ps = Payload (Some ''multipart/mixed'') (Some (Body None)) (Some ps)"

definition kopi_html :: payload where
  "kopi_html = leaf ''text/html'' (Some ''PHA-QmVsaSBrb3BpIDIwMDAwPC9wPg=='')"

definition kopi_plain :: payload where
  "kopi_plain = leaf ''text/plain'' (Some ''QmVsaSBrb3BpIDIwMDAw'')"

definition cdata_html :: payload where
  "cdata_html = leaf ''text/html'' (Some ''PCFbZm9vW2Jhcl1dPg=='')"

definition listrik_plain :: payload where
  "listrik_plain = leaf ''text/plain'' (Some ''QmF5YXIgbGlzdHJpayA1MDAwMA=='')"

text \<open>
  Variants of the environment: the notifier available (with six candidates and with
  two), the append request refused, no candidate message, two candidates that are
  already stored, three candidates of which the second does not decode, and one
  candidate whose classification fails.
\<close>

definition available_env :: env where
  "available_env = sample_env\<lparr>telegram_available := True\<rparr>"

definition pair_env :: env where
  "pair_env =
     available_env\<lparr>emails := [plain_message ''m1'' ''YQ=='', plain_message ''m2'' ''Yg=='']\<rparr>"

definition failing_env :: env where
  "failing_env = sample_env\<lparr>sheets_append := (\<lambda>rows. False)\<rparr>"

definition idle_env :: env where
  "idle_env = sample_env\<lparr>emails := []\<rparr>"

definition stored_env :: env where
  "stored_env =
     sample_env\<lparr>emails := [plain_message ''m1'' ''YQ=='', plain_message ''m2'' ''Yg==''],
                sheet_values := Inr stored_sheet\<rparr>"

definition aborting_env :: env where
  "aborting_env =
     sample_env\<lparr>emails := [plain_message ''m1'' ''YQ=='', plain_message ''mx'' ''_w=='',
                           plain_message ''m2'' ''Yg=='']\<rparr>"

definition unparsed_env :: env where
  "unparsed_env = sample_env\<lparr>emails := [plain_message ''m7'' ''QmF5YXIgbGlzdHJpayA1MDAwMA=='']\<rparr>"

section \<open>Basic facts\<close>

lemmas sample_defs =
  sample_env_def sample_b64decode_utf8_def sample_generate_content_def
  sample_json_loads_def sample_str_other_def ascii_strip_def ascii_lower_def is_space_def
  lower_letters_def upper_letters_def
  plain_message_def html_message_def six_messages_def stored_sheet_def world0_def
  fence_def fence_json_def header_row_def

lemmas model_defs =
  body_data_def decode_plain_def decode_html_def html_feed_def data_token_def plain_name_def
  unscanned_elements_def truthy_def
  parse_email_with_gemini_def parse_body_def clean_response_def contains_def
  split_item0_def split_item1_def sign_amount_def py_float_def fabs_def fneg_def
  dict_get_def dict_get_default_def py_str_def key_fields_def
  make_entry_def make_row_def mark_email_processed_def init_staged_def
  email_processor_user_id_def

lemma fabs_fabs: "fabs (fabs x) = fabs x"
  by (simp add: fabs_def)

lemma fabs_fneg: "fabs (fneg x) = fabs x"
  by (simp add: fabs_def fneg_def)

lemma map_of_dict_set: "map_of (dict_set d k v) = (map_of d)(k \<mapsto> v)"
  by (induction d) (auto simp: fun_eq_iff)

lemma dict_get_dict_set: "dict_get (dict_set d k v) k' = (if k' = k then v else dict_get d k')"
  by (simp add: dict_get_def dict_get_default_def map_of_dict_set)

lemma dict_set_dict_set: "dict_set (dict_set d k v) k v' = dict_set d k v'"
  by (induction d) auto

lemma dict_set_fresh: "k \<notin> fst ` set d \<Longrightarrow> dict_set d k v = d @ [(k, v)]"
  by (induction d) auto

lemma py_float_float: "py_float env (PFloat f) = Inr f"
  by (simp add: py_float_def)

lemma clean_response_total: "\<exists>c. clean_response env r = Inr c"
  by (auto simp: clean_response_def contains_def split_item1_def split: option.splits)

section \<open>Properties of the deduplication\<close>

lemma fields_match_iff:
  "fields_match env n e fs \<longleftrightarrow> (\<forall>f \<in> set fs. compared env n f = compared env e f)"
  by (induction fs) (auto simp: Let_def compared_def)

lemma is_duplicate_bex:
  "is_duplicate env n es \<longleftrightarrow> (\<exists>e \<in> set es. fields_match env n e key_fields)"
  by (induction es) auto

text \<open>
  C1. \<^verbatim>\<open>is_duplicate\<close> returns true exactly when some existing record agrees with the
  candidate on \<^verbatim>\<open>date\<close>, \<^verbatim>\<open>amount\<close>, \<^verbatim>\<open>category\<close> and \<^verbatim>\<open>description\<close>, each compared as
  a lower-cased string; on the empty list of existing records it returns false.
\<close>

theorem is_duplicate_iff:
  "(is_duplicate env new_entry existing_entries \<longleftrightarrow>
      (\<exists>existing \<in> set existing_entries.
         compared env new_entry ''date'' = compared env existing ''date'' \<and>
         compared env new_entry ''amount'' = compared env existing ''amount'' \<and>
         compared env new_entry ''category'' = compared env existing ''category'' \<and>
         compared env new_entry ''description'' = compared env existing ''description''))
   \<and> \<not> is_duplicate env new_entry []"
  by (simp add: is_duplicate_bex fields_match_iff key_fields_def)

text \<open>The comparison ignores case: \<^verbatim>\<open>Food\<close> matches \<^verbatim>\<open>food\<close>.\<close>

lemma is_duplicate_case_example:
  "is_duplicate sample_env
     [(''date'', PStr ''2024-01-01''), (''category'', PStr ''Food'')]
     [[(''date'', PStr ''2024-01-01''), (''category'', PStr ''food'')]]"
  by (simp add: sample_defs model_defs)

section \<open>Properties of the sign normalisation\<close>

text \<open>
  C2, the claim as stated fails on an amount that is not null and that \<^verbatim>\<open>float\<close>
  refuses: the adapter catches the exception and returns \<^verbatim>\<open>None\<close>, so there is no
  output amount. Here the amount is the string \<^verbatim>\<open>Rp 20.000\<close>; the sign step fails in
  the same way on the integer \<open>10 ^ 309\<close>.
\<close>

theorem amount_refused_counterexample:
  \<open>generate_content sample_env ''Beli pulsa Rp 20.000'' (today sample_env) =
     Inr ''{"amount": "Rp 20.000", "transaction_type": "expense"}'' \<and>
   json_loads sample_env ''{"amount": "Rp 20.000", "transaction_type": "expense"}'' =
     Some (PDict [(''amount'', PStr ''Rp 20.000''), (''transaction_type'', PStr ''expense'')]) \<and>
   parse_email_with_gemini sample_env ''Beli pulsa Rp 20.000'' = None \<and>
   sign_amount sample_env [(''amount'', PInt (10 ^ 309)), (''transaction_type'', PStr ''expense'')] =
     Inl OverflowError\<close>
  by (simp add: sample_defs model_defs)

text \<open>
  C2 as amended. When the classifier's reply parses to an object whose \<^verbatim>\<open>amount\<close> is not
  null: if \<^verbatim>\<open>float\<close> accepts the amount, the adapter returns the object with \<^verbatim>\<open>amount\<close>
  replaced by the float of the same magnitude whose sign is negative exactly when
  \<^verbatim>\<open>transaction_type\<close> is the string \<^verbatim>\<open>expense\<close>, whatever the sign of the raw amount,
  and with the other fields unchanged; if \<^verbatim>\<open>float\<close> raises, the adapter returns
  \<^verbatim>\<open>None\<close>.
\<close>

theorem parse_amount_sign:
  assumes "email_text \<noteq> []"
    and "generate_content env email_text (today env) = Inr response_text"
    and "clean_response env response_text = Inr cleaned"
    and "json_loads env cleaned = Some (PDict raw)"
    and "dict_get raw ''amount'' \<noteq> PNone"
  shows "(\<forall>f. py_float env (dict_get raw ''amount'') = Inr f \<longrightarrow>
           (\<exists>out. parse_email_with_gemini env email_text = Some out \<and>
              dict_get out ''amount'' =
                PFloat (Float (dict_get raw ''transaction_type'' = PStr ''expense'') (magnitude f)) \<and>
              (\<forall>k. k \<noteq> ''amount'' \<longrightarrow> dict_get out k = dict_get raw k))) \<and>
         (\<forall>e. py_float env (dict_get raw ''amount'') = Inl e \<longrightarrow>
           parse_email_with_gemini env email_text = None)"
  using assms
  by (simp add: parse_email_with_gemini_def parse_body_def sign_amount_def Let_def
      dict_get_dict_set fabs_def fneg_def)

theorem parse_amount_sign_witness:
  \<open>generate_content sample_env ''Beli kopi 20000'' (today sample_env) =
     Inr (fence_json @ '' {"amount": 20000, "transaction_type": "expense"} '' @ fence) \<and>
   clean_response sample_env
       (fence_json @ '' {"amount": 20000, "transaction_type": "expense"} '' @ fence) =
     Inr ''{"amount": 20000, "transaction_type": "expense"}'' \<and>
   py_float sample_env (PInt 20000) = Inr (Float False 0x40D3880000000000) \<and>
   (\<exists>out. parse_email_with_gemini sample_env ''Beli kopi 20000'' = Some out \<and>
      dict_get out ''amount'' = PFloat (Float True 0x40D3880000000000) \<and>
      dict_get out ''transaction_type'' = PStr ''expense'') \<and>
   py_float sample_env (PStr ''Rp 20.000'') = Inl ValueError \<and>
   parse_email_with_gemini sample_env ''Beli pulsa Rp 20.000'' = None\<close>
proof -
  let ?reply = \<open>fence_json @ '' {"amount": 20000, "transaction_type": "expense"} '' @ fence\<close>
  let ?raw = "[(''amount'', PInt 20000), (''transaction_type'', PStr ''expense'')]"
  let ?raw2 = "[(''amount'', PStr ''Rp 20.000''), (''transaction_type'', PStr ''expense'')]"
  have g: "generate_content sample_env ''Beli kopi 20000'' (today sample_env) = Inr ?reply"
    by (simp add: sample_env_def sample_generate_content_def)
  have c: \<open>clean_response sample_env ?reply =
             Inr ''{"amount": 20000, "transaction_type": "expense"}''\<close>
    by (simp add: sample_defs clean_response_def contains_def split_item0_def split_item1_def)
  have j: \<open>json_loads sample_env ''{"amount": 20000, "transaction_type": "expense"}'' =
             Some (PDict ?raw)\<close>
    by (simp add: sample_env_def sample_json_loads_def)
  have a: "dict_get ?raw ''amount'' \<noteq> PNone"
    by (simp add: dict_get_def dict_get_default_def)
  have f: "py_float sample_env (PInt 20000) = Inr (Float False 0x40D3880000000000)"
    by (simp add: py_float_def sample_env_def)
  then have f': "py_float sample_env (dict_get ?raw ''amount'') = Inr (Float False 0x40D3880000000000)"
    by (simp add: dict_get_def dict_get_default_def)
  have g2: \<open>generate_content sample_env ''Beli pulsa Rp 20.000'' (today sample_env) =
             Inr ''{"amount": "Rp 20.000", "transaction_type": "expense"}''\<close>
    by (simp add: sample_env_def sample_generate_content_def)
  have c2: \<open>clean_response sample_env ''{"amount": "Rp 20.000", "transaction_type": "expense"}'' =
             Inr ''{"amount": "Rp 20.000", "transaction_type": "expense"}''\<close>
    by (simp add: clean_response_def contains_def fence_def fence_json_def)
  have j2: \<open>json_loads sample_env ''{"amount": "Rp 20.000", "transaction_type": "expense"}'' =
             Some (PDict ?raw2)\<close>
    by (simp add: sample_env_def sample_json_loads_def)
  have a2: "dict_get ?raw2 ''amount'' \<noteq> PNone"
    by (simp add: dict_get_def dict_get_default_def)
  have r: "py_float sample_env (PStr ''Rp 20.000'') = Inl ValueError"
    by (simp add: py_float_def sample_env_def)
  then have r': "py_float sample_env (dict_get ?raw2 ''amount'') = Inl ValueError"
    by (simp add: dict_get_def dict_get_default_def)
  from parse_amount_sign [OF _ g c j a, THEN conjunct1, rule_format, OF _ f']
  have ok: "\<exists>out. parse_email_with_gemini sample_env ''Beli kopi 20000'' = Some out \<and>
      dict_get out ''amount'' = PFloat (Float True 0x40D3880000000000) \<and>
      dict_get out ''transaction_type'' = PStr ''expense''"
    by (auto simp: dict_get_def dict_get_default_def)
  from parse_amount_sign [OF _ g2 c2 j2 a2, THEN conjunct2, rule_format, OF _ r']
  have no: "parse_email_with_gemini sample_env ''Beli pulsa Rp 20.000'' = None"
    by simp
  from g c f ok r no show ?thesis by simp
qed

text \<open>
  C3. Setting the sign a second time changes nothing: applied to the record that
  the first application returned, the step returns that same record.
\<close>

theorem sign_amount_idempotent:
  "sign_amount env d = Inr d' \<Longrightarrow> sign_amount env d' = Inr d'"
  by (auto simp: sign_amount_def Let_def dict_get_dict_set dict_set_dict_set py_float_def
      fabs_fabs fabs_fneg split: sum.splits if_splits)

theorem sign_amount_idempotent_witness:
  "sign_amount sample_env [(''amount'', PInt 20000), (''transaction_type'', PStr ''expense'')] =
     Inr [(''amount'', PFloat (Float True 0x40D3880000000000)),
          (''transaction_type'', PStr ''expense'')] \<and>
   sign_amount sample_env [(''amount'', PFloat (Float True 0x40D3880000000000)),
                           (''transaction_type'', PStr ''expense'')] =
     Inr [(''amount'', PFloat (Float True 0x40D3880000000000)),
          (''transaction_type'', PStr ''expense'')]"
proof -
  have h: "sign_amount sample_env
             [(''amount'', PInt 20000), (''transaction_type'', PStr ''expense'')] =
           Inr [(''amount'', PFloat (Float True 0x40D3880000000000)),
                (''transaction_type'', PStr ''expense'')]"
    by (simp add: sign_amount_def py_float_def sample_env_def fabs_def fneg_def
        dict_get_def dict_get_default_def)
  from sign_amount_idempotent [OF h] h show ?thesis by simp
qed

section \<open>Properties of the store reader\<close>

lemma entry_of_ok:
  "\<lbrakk>\<forall>i \<in> set js. i < length hs \<and> i < length row; distinct (map ((!) hs) js);
    \<forall>i \<in> set js. hs ! i \<notin> fst ` set acc\<rbrakk>
   \<Longrightarrow> entry_of hs row js acc = Inr (acc @ map (\<lambda>j. (hs ! j, row ! j)) js)"
proof (induction js arbitrary: acc)
  case Nil
  then show ?case by simp
next
  case (Cons j js)
  have fresh: "hs ! j \<notin> fst ` set acc" using Cons.prems by simp
  have "entry_of hs row (j # js) acc = entry_of hs row js (acc @ [(hs ! j, row ! j)])"
    using Cons.prems fresh by (simp add: item_def dict_set_fresh)
  also have "\<dots> = Inr ((acc @ [(hs ! j, row ! j)]) @ map (\<lambda>j. (hs ! j, row ! j)) js)"
    using Cons.prems by (intro Cons.IH) (auto simp: image_iff)
  finally show ?case by simp
qed

lemma length_headers: "length headers = 6"
  by (simp add: headers_def)

lemma distinct_headers: "distinct headers"
  by (simp add: headers_def)

lemma pad_row_nth: "j < 6 \<Longrightarrow> pad_row row ! j = cell row j"
  by (auto simp: pad_row_def cell_def nth_append length_headers)

lemma length_pad_row: "6 \<le> length (pad_row row)"
  by (simp add: pad_row_def length_headers)

lemma entry_of_row: "entry_of headers (pad_row row) [0..<length headers] [] = Inr (record_of row)"
proof -
  have d: "distinct (map ((!) headers) [0..<6])"
    using distinct_headers length_headers by (metis map_nth)
  have "entry_of headers (pad_row row) [0..<6] [] =
          Inr ([] @ map (\<lambda>j. (headers ! j, pad_row row ! j)) [0..<6])"
    using length_pad_row [of row] d by (intro entry_of_ok) (auto simp: length_headers)
  then show ?thesis
    by (simp add: length_headers record_of_def pad_row_nth)
qed

lemma existing_rows_map: "existing_rows rows = Inr (map record_of rows)"
  by (induction rows) (simp_all add: entry_of_row)

lemma keys_record_of: "map fst (record_of row) = headers"
  by (simp add: record_of_def headers_def upt_rec)

text \<open>
  C10. Whatever rows the store returns, every data row gives one record; the record of
  a row has the six keys \<^verbatim>\<open>date\<close>, \<^verbatim>\<open>amount\<close>, \<^verbatim>\<open>category\<close>, \<^verbatim>\<open>description\<close>,
  \<^verbatim>\<open>user_id\<close>, \<^verbatim>\<open>timestamp\<close> in this order, with the row's cell where it has one and the
  empty string where the row is short; building it reads no index out of range.
\<close>

theorem get_existing_data_padded:
  assumes "sheet_values env = Inr values"
  shows "get_existing_data env = map record_of (tl values) \<and>
         (\<forall>entry \<in> set (get_existing_data env). map fst entry = headers) \<and>
         (\<forall>row \<in> set (tl values).
            entry_of headers (pad_row row) [0..<length headers] [] = Inr (record_of row))"
proof -
  have a: "get_existing_data env = map record_of (tl values)"
    using assms by (cases "values") (auto simp: get_existing_data_def existing_rows_map)
  show ?thesis using a by (auto simp: entry_of_row keys_record_of)
qed

theorem get_existing_data_padded_witness:
  "sheet_values (sample_env\<lparr>sheet_values := Inr stored_sheet\<rparr>) = Inr stored_sheet \<and>
   get_existing_data (sample_env\<lparr>sheet_values := Inr stored_sheet\<rparr>) =
     [[(''date'', PStr ''2024-01-01''), (''amount'', PStr ''0''), (''category'', PStr ''LAINNYA''),
       (''description'', PStr ''A''), (''user_id'', PStr []), (''timestamp'', PStr [])],
      [(''date'', PStr ''2024-01-01''), (''amount'', PStr ''0''), (''category'', PStr ''Lainnya''),
       (''description'', PStr ''b''), (''user_id'', PStr ''email-processor-acct''),
       (''timestamp'', PStr ''2024-01-01 10:00:00'')]]"
proof -
  have h: "sheet_values (sample_env\<lparr>sheet_values := Inr stored_sheet\<rparr>) = Inr stored_sheet"
    by simp
  from get_existing_data_padded [OF h] h show ?thesis
    by (simp add: stored_sheet_def record_of_def cell_def headers_def upt_rec)
qed

section \<open>Properties of the content extractor\<close>


lemma extract_parts_plain:
  "\<lbrakk>mimeType p = Some ''text/plain''; body p = Some bd; body_data bd \<noteq> []\<rbrakk>
   \<Longrightarrow> extract_parts env (p # post) = decode_plain env (body_data bd)"
  by simp

lemma extract_parts_html:
  "\<lbrakk>mimeType p = Some ''text/html''; body p = Some bd; body_data bd \<noteq> []\<rbrakk>
   \<Longrightarrow> extract_parts env (p # post) = decode_html env (body_data bd)"
  by simp

















section \<open>Properties of the message loop\<close>

lemma process_loop_append:
  "process_loop env u ex (xs @ ys) st w =
     (case process_loop env u ex xs st w of
        (None, st', w') \<Rightarrow> process_loop env u ex ys st' w'
      | (Some e, st', w') \<Rightarrow> (Some e, st', w'))"
  by (induction xs arbitrary: st w) (auto split: sum.splits option.splits)

lemma process_loop_skip:
  "extraction_empty env email \<or> classification_failed env email \<Longrightarrow>
     process_loop env u ex (email # rest) st w = process_loop env u ex rest st w"
  by (auto simp: extraction_empty_def classification_failed_def truthy_def
      split: sum.splits option.splits)

lemma process_loop_duplicate:
  "classified_duplicate env ex email \<Longrightarrow>
     process_loop env u ex (email # rest) st w =
       process_loop env u ex rest (st\<lparr>duplicate_count := duplicate_count st + 1\<rparr>)
         (mark_email_processed (msg_id email) w)"
  by (auto simp: classified_duplicate_def split: sum.splits option.splits)

lemma process_loop_duplicates:
  "\<forall>email \<in> set es. classified_duplicate env ex email \<Longrightarrow>
     process_loop env u ex es st w =
       (None, st\<lparr>duplicate_count := duplicate_count st + length es\<rparr>,
        w\<lparr>handled := handled w @ map msg_id es\<rparr>)"
proof (induction es arbitrary: st w)
  case Nil
  then show ?case by simp
next
  case (Cons e es)
  then have e: "classified_duplicate env ex e"
    and es: "\<forall>email \<in> set es. classified_duplicate env ex email" by simp_all
  have "process_loop env u ex (e # es) st w =
          process_loop env u ex es (st\<lparr>duplicate_count := duplicate_count st + 1\<rparr>)
            (mark_email_processed (msg_id e) w)"
    by (rule process_loop_duplicate [OF e])
  also have "\<dots> = (None, st\<lparr>duplicate_count := duplicate_count st + length (e # es)\<rparr>,
                      w\<lparr>handled := handled w @ map msg_id (e # es)\<rparr>)"
    by (simp add: Cons.IH [OF es] mark_email_processed_def)
  finally show ?case .
qed

text \<open>The loop touches neither the store nor the notifier, and stages one entry per row.\<close>

lemma process_loop_invariant:
  "process_loop env u ex es st w = (r, st', w') \<Longrightarrow>
     appended w' = appended w \<and> notifications w' = notifications w \<and>
     length (all_data_rows st') + length (processed_transactions st) =
       length (all_data_rows st) + length (processed_transactions st') \<and>
     length (all_data_rows st) \<le> length (all_data_rows st')"
proof (induction es arbitrary: st w)
  case Nil
  then show ?case by simp
next
  case (Cons e es)
  show ?case
  proof (cases "extract_email_body env (msg_payload e)")
    case (Inl x)
    with Cons.prems show ?thesis by simp
  next
    case (Inr body)
    show ?thesis
    proof (cases "truthy body")
      case False
      with Inr Cons.prems have "process_loop env u ex es st w = (r, st', w')"
        by (auto simp: truthy_def split: option.splits)
      then show ?thesis by (rule Cons.IH)
    next
      case True
      then obtain t where t: "body = Some t" "t \<noteq> []"
        by (auto simp: truthy_def split: option.splits)
      show ?thesis
      proof (cases "parse_email_with_gemini env t")
        case None
        with Inr t Cons.prems have "process_loop env u ex es st w = (r, st', w')" by simp
        then show ?thesis by (rule Cons.IH)
      next
        case (Some d)
        consider (empty) "d = []"
          | (dup) "d \<noteq> []" "is_duplicate env (make_entry env d) ex"
          | (new) "d \<noteq> []" "\<not> is_duplicate env (make_entry env d) ex"
          by blast
        then show ?thesis
        proof cases
          case empty
          with Inr t Some Cons.prems have "process_loop env u ex es st w = (r, st', w')" by simp
          then show ?thesis by (rule Cons.IH)
        next
          case dup
          with Inr t Some Cons.prems
          have "process_loop env u ex es (st\<lparr>duplicate_count := duplicate_count st + 1\<rparr>)
                  (mark_email_processed (msg_id e) w) = (r, st', w')" by simp
          from Cons.IH [OF this] show ?thesis by (simp add: mark_email_processed_def)
        next
          case new
          with Inr t Some Cons.prems
          have "process_loop env u ex es
                  (st\<lparr>all_data_rows := all_data_rows st @ [make_row env u (make_entry env d)],
                      processed_transactions := processed_transactions st @ [make_entry env d]\<rparr>)
                  (mark_email_processed (msg_id e) w) = (r, st', w')" by simp
          from Cons.IH [OF this] show ?thesis by (simp add: mark_email_processed_def)
        qed
      qed
    qed
  qed
qed

lemma process_loop_new:
  "classified_new env ex email d \<Longrightarrow>
     process_loop env u ex (email # rest) st w =
       process_loop env u ex rest
         (st\<lparr>all_data_rows := all_data_rows st @ [make_row env u (make_entry env d)],
             processed_transactions := processed_transactions st @ [make_entry env d]\<rparr>)
         (mark_email_processed (msg_id email) w)"
  by (auto simp: classified_new_def split: sum.splits option.splits)

lemma process_loop_all_new:
  "\<forall>(m, d) \<in> set new. classified_new env ex m d \<Longrightarrow>
     process_loop env u ex (map fst new) st w =
       (None,
        st\<lparr>all_data_rows :=
              all_data_rows st @ map (\<lambda>(m, d). make_row env u (make_entry env d)) new,
            processed_transactions :=
              processed_transactions st @ map (\<lambda>(m, d). make_entry env d) new\<rparr>,
        w\<lparr>handled := handled w @ map (\<lambda>(m, d). msg_id m) new\<rparr>)"
proof (induction new arbitrary: st w)
  case Nil
  then show ?case by simp
next
  case (Cons x new)
  obtain m d where x: "x = (m, d)" by (cases x)
  from Cons.prems x have m: "classified_new env ex m d"
    and rest: "\<forall>(m, d) \<in> set new. classified_new env ex m d" by simp_all
  have "process_loop env u ex (map fst (x # new)) st w =
          process_loop env u ex (map fst new)
            (st\<lparr>all_data_rows := all_data_rows st @ [make_row env u (make_entry env d)],
                processed_transactions := processed_transactions st @ [make_entry env d]\<rparr>)
            (mark_email_processed (msg_id m) w)"
    using process_loop_new [OF m] x by simp
  then show ?case
    by (simp add: Cons.IH [OF rest] x mark_email_processed_def)
qed

lemma process_loop_raise:
  "extract_email_body env (msg_payload email) = Inl e \<Longrightarrow>
     process_loop env u ex (email # rest) st w = (Some e, st, w)"
  by simp

lemma backend_error_fails:
  "generate_content env t (today env) = Inl e \<Longrightarrow> parse_email_with_gemini env t = None"
  by (simp add: parse_email_with_gemini_def parse_body_def)

lemma malformed_reply_fails:
  "\<lbrakk>generate_content env t (today env) = Inr reply; clean_response env reply = Inr c;
    json_loads env c = None\<rbrakk> \<Longrightarrow> parse_email_with_gemini env t = None"
  by (simp add: parse_email_with_gemini_def parse_body_def)

lemma get_existing_data_eq:
  "get_existing_data env =
     (case sheet_values env of Inl e \<Rightarrow> [] | Inr rows \<Rightarrow> map record_of (tl rows))"
proof (cases "sheet_values env")
  case (Inl e)
  then show ?thesis by (simp add: get_existing_data_def)
next
  case (Inr rows)
  then show ?thesis
    by (cases rows) (auto simp: get_existing_data_def existing_rows_map)
qed

text \<open>
  C6. When every candidate is extracted, classified and found among the existing
  records, the loop marks each message handled, counts it as a duplicate and stages
  nothing; the run then appends no row and sends no notification.
\<close>

theorem duplicates_marked_not_staged:
  "((\<forall>email \<in> set es. classified_duplicate env existing_data email) \<longrightarrow>
      process_loop env user_id existing_data es st w =
        (None, st\<lparr>duplicate_count := duplicate_count st + length es\<rparr>,
         w\<lparr>handled := handled w @ map msg_id es\<rparr>)) \<and>
   (setup_error env = None \<and>
    (\<forall>email \<in> set (emails env). classified_duplicate env (get_existing_data env) email) \<longrightarrow>
      process_gmail_account env account_id w =
        (Inr PNone, w\<lparr>handled := handled w @ map msg_id (emails env)\<rparr>))"
  by (auto simp: process_loop_duplicates process_gmail_account_def commit_and_notify_def
      init_staged_def)

lemmas run_defs =
  available_env_def pair_env_def failing_env_def idle_env_def stored_env_def aborting_env_def
  unparsed_env_def
  leaf_def multipart_def kopi_html_def kopi_plain_def listrik_plain_def cdata_html_def
  get_existing_data_eq record_of_def cell_def headers_def upt_rec
  classified_duplicate_def classified_new_def classification_failed_def extraction_empty_def
  process_gmail_account_def commit_and_notify_def append_to_sheet_def send_notifications_def

theorem duplicates_marked_not_staged_witness:
  "classified_duplicate stored_env (get_existing_data stored_env) (plain_message ''m1'' ''YQ=='') \<and>
   classified_duplicate stored_env (get_existing_data stored_env) (plain_message ''m2'' ''Yg=='') \<and>
   process_loop stored_env ''email-processor-acct'' (get_existing_data stored_env)
       (emails stored_env) init_staged world0 =
     (None, init_staged\<lparr>duplicate_count := 2\<rparr>, world0\<lparr>handled := [''m1'', ''m2'']\<rparr>) \<and>
   process_gmail_account stored_env ''acct'' world0 =
     (Inr PNone, world0\<lparr>handled := [''m1'', ''m2'']\<rparr>)"
proof -
  have d1: "classified_duplicate stored_env (get_existing_data stored_env)
              (plain_message ''m1'' ''YQ=='')"
    by (simp add: run_defs sample_defs model_defs)
  have d2: "classified_duplicate stored_env (get_existing_data stored_env)
              (plain_message ''m2'' ''Yg=='')"
    by (simp add: run_defs sample_defs model_defs)
  have es: "emails stored_env = [plain_message ''m1'' ''YQ=='', plain_message ''m2'' ''Yg=='']"
    by (simp add: stored_env_def)
  have all: "\<forall>email \<in> set (emails stored_env).
               classified_duplicate stored_env (get_existing_data stored_env) email"
    using d1 d2 by (simp add: es)
  have s: "setup_error stored_env = None"
    by (simp add: stored_env_def sample_env_def)
  note main = duplicates_marked_not_staged
  have l: "process_loop stored_env ''email-processor-acct'' (get_existing_data stored_env)
             (emails stored_env) init_staged world0 =
           (None, init_staged\<lparr>duplicate_count := 2\<rparr>, world0\<lparr>handled := [''m1'', ''m2'']\<rparr>)"
    using main [THEN conjunct1, THEN mp, OF all, of "''email-processor-acct''" init_staged world0]
    by (simp add: es init_staged_def world0_def plain_message_def)
  have r: "process_gmail_account stored_env ''acct'' world0 =
             (Inr PNone, world0\<lparr>handled := [''m1'', ''m2'']\<rparr>)"
    using main [THEN conjunct2, THEN mp, OF conjI [OF s all], of "''acct''" world0]
    by (simp add: es world0_def plain_message_def)
  from d1 d2 l r show ?thesis by simp
qed

text \<open>
  C7, the claim as stated fails on a candidate whose body does not decode: its
  extraction yields no text, but by an exception, which ends the loop and the run. The
  message before it stays marked and its staged row is never appended; the message
  after it, a new transaction, is never looked at.
\<close>

theorem undecodable_aborts_counterexample:
  "extract_email_body aborting_env (msg_payload (plain_message ''mx'' ''_w=='')) =
     Inl DecodeError \<and>
   classified_new aborting_env [] (plain_message ''m2'' ''Yg=='') [(''description'', PStr ''b'')] \<and>
   handled (snd (process_gmail_account aborting_env ''acct'' world0)) = [''m1''] \<and>
   appended (snd (process_gmail_account aborting_env ''acct'' world0)) = []"
  by (simp add: run_defs sample_defs model_defs)

text \<open>
  C7 as amended. A candidate whose extraction returns \<^verbatim>\<open>None\<close> or the empty string,
  or whose classification fails, leaves no trace: the loop over the batch with this
  message is the loop over the batch without it, in what it marks, stages and counts;
  and the loop goes on: when the candidates after it are new transactions, each of
  them is staged and marked. A candidate whose extraction raises ends the loop with the
  exception, and the run ends there: the messages marked before it stay marked, and
  nothing is appended or notified.
\<close>

theorem unprocessed_message_skipped:
  "(extraction_empty env email \<or> classification_failed env email \<longrightarrow>
      process_loop env user_id existing_data (pre @ email # post) st w =
      process_loop env user_id existing_data (pre @ post) st w) \<and>
   ((extraction_empty env email \<or> classification_failed env email) \<and>
    (\<forall>(m, d) \<in> set new. classified_new env existing_data m d) \<longrightarrow>
      process_loop env user_id existing_data (email # map fst new) st w =
        (None,
         st\<lparr>all_data_rows :=
               all_data_rows st @ map (\<lambda>(m, d). make_row env user_id (make_entry env d)) new,
             processed_transactions :=
               processed_transactions st @ map (\<lambda>(m, d). make_entry env d) new\<rparr>,
         w\<lparr>handled := handled w @ map (\<lambda>(m, d). msg_id m) new\<rparr>)) \<and>
   (extract_email_body env (msg_payload email) = Inl e \<longrightarrow>
      process_loop env user_id existing_data (email # post) st w = (Some e, st, w)) \<and>
   (setup_error env = None \<and> emails env = pre @ email # post \<and>
    extract_email_body env (msg_payload email) = Inl e \<and>
    process_loop env (email_processor_user_id env account_id) (get_existing_data env) pre
      init_staged w = (None, st', w') \<longrightarrow>
      process_gmail_account env account_id w = (Inr PNone, w') \<and>
      appended w' = appended w \<and> notifications w' = notifications w)"
proof (intro conjI impI)
  assume a: "extraction_empty env email \<or> classification_failed env email"
  then show "process_loop env user_id existing_data (pre @ email # post) st w =
             process_loop env user_id existing_data (pre @ post) st w"
    by (simp add: process_loop_append process_loop_skip del: process_loop.simps
        split: prod.splits option.splits)
next
  assume a: "(extraction_empty env email \<or> classification_failed env email) \<and>
             (\<forall>(m, d) \<in> set new. classified_new env existing_data m d)"
  then have "process_loop env user_id existing_data (email # map fst new) st w =
             process_loop env user_id existing_data (map fst new) st w"
    by (intro process_loop_skip) simp
  with a show "process_loop env user_id existing_data (email # map fst new) st w =
        (None,
         st\<lparr>all_data_rows :=
               all_data_rows st @ map (\<lambda>(m, d). make_row env user_id (make_entry env d)) new,
             processed_transactions :=
               processed_transactions st @ map (\<lambda>(m, d). make_entry env d) new\<rparr>,
         w\<lparr>handled := handled w @ map (\<lambda>(m, d). msg_id m) new\<rparr>)"
    by (simp add: process_loop_all_new del: process_loop.simps)
next
  assume "extract_email_body env (msg_payload email) = Inl e"
  then show "process_loop env user_id existing_data (email # post) st w = (Some e, st, w)"
    by (rule process_loop_raise)
next
  assume a: "setup_error env = None \<and> emails env = pre @ email # post \<and>
    extract_email_body env (msg_payload email) = Inl e \<and>
    process_loop env (email_processor_user_id env account_id) (get_existing_data env) pre
      init_staged w = (None, st', w')"
  then have l: "process_loop env (email_processor_user_id env account_id) (get_existing_data env)
                  (emails env) init_staged w = (Some e, st', w')"
    by (simp add: process_loop_append process_loop_raise del: process_loop.simps)
  with a show "process_gmail_account env account_id w = (Inr PNone, w')"
    by (simp add: process_gmail_account_def)
  from a have lp: "process_loop env (email_processor_user_id env account_id)
                     (get_existing_data env) pre init_staged w = (None, st', w')"
    by simp
  from process_loop_invariant [OF lp] show "appended w' = appended w" by simp
  from process_loop_invariant [OF lp] show "notifications w' = notifications w" by simp
qed

theorem unprocessed_message_skipped_witness:
  "generate_content sample_env ''Bayar listrik 50000'' (today sample_env) =
     Inr ''Maaf, saya tidak tahu.'' \<and>
   json_loads sample_env ''Maaf, saya tidak tahu.'' = None \<and>
   classification_failed sample_env (plain_message ''m7'' ''QmF5YXIgbGlzdHJpayA1MDAwMA=='') \<and>
   process_loop sample_env ''u'' []
       ([plain_message ''m1'' ''YQ==''] @ plain_message ''m7'' ''QmF5YXIgbGlzdHJpayA1MDAwMA=='' #
        [plain_message ''m2'' ''Yg=='']) init_staged world0 =
     process_loop sample_env ''u'' []
       ([plain_message ''m1'' ''YQ==''] @ [plain_message ''m2'' ''Yg=='']) init_staged world0 \<and>
   extraction_empty sample_env (html_message ''m8'' ''PGJyPg=='') \<and>
   process_loop sample_env ''u'' [] ([] @ html_message ''m8'' ''PGJyPg=='' # six_messages)
       init_staged world0 =
     process_loop sample_env ''u'' [] ([] @ six_messages) init_staged world0 \<and>
   classified_new sample_env [] (plain_message ''m1'' ''YQ=='') [(''description'', PStr ''a'')] \<and>
   classified_new sample_env [] (plain_message ''m2'' ''Yg=='') [(''description'', PStr ''b'')] \<and>
   handled (snd (snd (process_loop sample_env ''u'' []
       [plain_message ''m7'' ''QmF5YXIgbGlzdHJpayA1MDAwMA=='', plain_message ''m1'' ''YQ=='',
        plain_message ''m2'' ''Yg==''] init_staged world0))) = [''m1'', ''m2''] \<and>
   length (all_data_rows (fst (snd (process_loop sample_env ''u'' []
       [plain_message ''m7'' ''QmF5YXIgbGlzdHJpayA1MDAwMA=='', plain_message ''m1'' ''YQ=='',
        plain_message ''m2'' ''Yg==''] init_staged world0)))) = 3 \<and>
   extract_email_body aborting_env (msg_payload (plain_message ''mx'' ''_w=='')) =
     Inl DecodeError \<and>
   process_loop aborting_env ''u'' [] (plain_message ''mx'' ''_w=='' # six_messages)
       init_staged world0 = (Some DecodeError, init_staged, world0) \<and>
   process_gmail_account aborting_env ''acct'' world0 =
     (Inr PNone, world0\<lparr>handled := [''m1'']\<rparr>)"
proof -
  let ?m1 = "plain_message ''m1'' ''YQ==''"
  let ?m2 = "plain_message ''m2'' ''Yg==''"
  let ?m7 = "plain_message ''m7'' ''QmF5YXIgbGlzdHJpayA1MDAwMA==''"
  let ?mx = "plain_message ''mx'' ''_w==''"
  let ?new = "[(?m1, [(''description'', PStr ''a'')]), (?m2, [(''description'', PStr ''b'')])]"
  have g: "generate_content sample_env ''Bayar listrik 50000'' (today sample_env) =
             Inr ''Maaf, saya tidak tahu.''"
    by (simp add: sample_env_def sample_generate_content_def)
  have j: "json_loads sample_env ''Maaf, saya tidak tahu.'' = None"
    by (simp add: sample_env_def sample_json_loads_def)
  have c: "clean_response sample_env ''Maaf, saya tidak tahu.'' = Inr ''Maaf, saya tidak tahu.''"
    by (simp add: clean_response_def contains_def fence_def fence_json_def)
  have p: "parse_email_with_gemini sample_env ''Bayar listrik 50000'' = None"
    by (rule malformed_reply_fails [OF g c j])
  have f: "classification_failed sample_env ?m7"
    using p
    by (simp add: classification_failed_def plain_message_def body_data_def decode_plain_def
        sample_env_def sample_b64decode_utf8_def)
  have e: "extraction_empty sample_env (html_message ''m8'' ''PGJyPg=='')"
    by (simp add: extraction_empty_def sample_defs model_defs)
  have n1: "classified_new sample_env [] ?m1 [(''description'', PStr ''a'')]"
    by (simp add: classified_new_def sample_defs model_defs)
  have n2: "classified_new sample_env [] ?m2 [(''description'', PStr ''b'')]"
    by (simp add: classified_new_def sample_defs model_defs)
  have new: "\<forall>(m, d) \<in> set ?new. classified_new sample_env [] m d"
    using n1 n2 by simp
  have x: "extract_email_body aborting_env (msg_payload ?mx) = Inl DecodeError"
    by (simp add: aborting_env_def sample_defs model_defs)
  have s: "setup_error aborting_env = None"
    by (simp add: aborting_env_def sample_env_def)
  have es: "emails aborting_env = [?m1] @ ?mx # [?m2]"
    by (simp add: aborting_env_def)
  have l1: "process_loop aborting_env (email_processor_user_id aborting_env ''acct'')
              (get_existing_data aborting_env) [?m1] init_staged world0 =
            (None,
             init_staged\<lparr>all_data_rows := all_data_rows init_staged @
                 [make_row aborting_env ''email-processor-acct''
                    (make_entry aborting_env [(''description'', PStr ''a'')])],
               processed_transactions := processed_transactions init_staged @
                 [make_entry aborting_env [(''description'', PStr ''a'')]]\<rparr>,
             world0\<lparr>handled := [''m1'']\<rparr>)"
    by (simp add: run_defs sample_defs model_defs)
  note main = unprocessed_message_skipped
  have a: "process_loop sample_env ''u'' [] ([?m1] @ ?m7 # [?m2]) init_staged world0 =
           process_loop sample_env ''u'' [] ([?m1] @ [?m2]) init_staged world0"
    by (rule main [THEN conjunct1, THEN mp, OF disjI2 [OF f]])
  have b: "process_loop sample_env ''u'' [] ([] @ html_message ''m8'' ''PGJyPg=='' # six_messages)
       init_staged world0 =
     process_loop sample_env ''u'' [] ([] @ six_messages) init_staged world0"
    by (rule main [THEN conjunct1, THEN mp, OF disjI1 [OF e]])
  have k: "process_loop sample_env ''u'' [] (?m7 # map fst ?new) init_staged world0 =
        (None,
         init_staged\<lparr>all_data_rows :=
               all_data_rows init_staged @
               map (\<lambda>(m, d). make_row sample_env ''u'' (make_entry sample_env d)) ?new,
             processed_transactions :=
               processed_transactions init_staged @
               map (\<lambda>(m, d). make_entry sample_env d) ?new\<rparr>,
         world0\<lparr>handled := handled world0 @ map (\<lambda>(m, d). msg_id m) ?new\<rparr>)"
    by (rule main [THEN conjunct2, THEN conjunct1, THEN mp, OF conjI [OF disjI2 [OF f] new]])
  have k1: "handled (snd (snd (process_loop sample_env ''u'' [] [?m7, ?m1, ?m2]
              init_staged world0))) = [''m1'', ''m2'']"
    using k by (simp add: world0_def plain_message_def del: process_loop.simps)
  have k2: "length (all_data_rows (fst (snd (process_loop sample_env ''u'' [] [?m7, ?m1, ?m2]
              init_staged world0)))) = 3"
    using k by (simp add: init_staged_def del: process_loop.simps)
  have r: "process_loop aborting_env ''u'' [] (?mx # six_messages) init_staged world0 =
           (Some DecodeError, init_staged, world0)"
    by (rule main [THEN conjunct2, THEN conjunct2, THEN conjunct1, THEN mp, OF x])
  have t: "process_gmail_account aborting_env ''acct'' world0 =
           (Inr PNone, world0\<lparr>handled := [''m1'']\<rparr>)"
    using main [THEN conjunct2, THEN conjunct2, THEN conjunct2, THEN mp,
        OF conjI [OF s conjI [OF es conjI [OF x l1]]]]
    by simp
  from g j f a e b n1 n2 k1 k2 x r t show ?thesis
    by (simp del: process_loop.simps append.simps)
qed

section \<open>Properties of the commit and the notifications\<close>

lemma append_to_sheet_keeps:
  "notifications (append_to_sheet env rows skip w) = notifications w \<and>
   handled (append_to_sheet env rows skip w) = handled w"
  by (simp add: append_to_sheet_def Let_def)

lemma send_notifications_keeps:
  "appended (send_notifications env a n txs w) = appended w \<and>
   handled (send_notifications env a n txs w) = handled w"
  by (simp add: send_notifications_def)

text \<open>
  C8, the claim as stated fails when the notifier module could not be imported: six new
  rows are staged and appended, and no notification is sent.
\<close>

theorem notification_gate_counterexample:
  "length (all_data_rows (fst (snd (process_loop sample_env
       (email_processor_user_id sample_env ''acct'') (get_existing_data sample_env)
       (emails sample_env) init_staged world0)))) = 7 \<and>
   map length (appended (snd (process_gmail_account sample_env ''acct'' world0))) = [7] \<and>
   notifications (snd (process_gmail_account sample_env ''acct'' world0)) = []"
  by (simp add: run_defs sample_defs model_defs)

text \<open>
  C8 as amended. When the notifier module is available and the loop ends with at least
  one staged row, the run sends one batch notification with the number of staged rows
  if that number exceeds five, and otherwise one notification for each staged
  transaction, in order; there are as many staged transactions as staged rows.
\<close>

theorem notifications_when_available:
  assumes "telegram_available env" and "setup_error env = None"
    and "process_loop env (email_processor_user_id env account_id) (get_existing_data env)
           (emails env) init_staged w = (None, st, w')"
    and "length (all_data_rows st) > 1"
  shows "notifications (snd (process_gmail_account env account_id w)) =
           notifications w @
             (if length (all_data_rows st) - 1 > 5
              then [BatchNotification (length (all_data_rows st) - 1) account_id]
              else map (\<lambda>t. TransactionNotification t account_id) (processed_transactions st)) \<and>
         length (processed_transactions st) = length (all_data_rows st) - 1"
proof -
  have ne: "emails env \<noteq> []"
    using assms(3,4) by (auto simp: init_staged_def)
  from process_loop_invariant [OF assms(3)]
  have inv: "notifications w' = notifications w"
    "length (processed_transactions st) = length (all_data_rows st) - 1"
    by (simp_all add: init_staged_def)
  have "process_gmail_account env account_id w =
          (Inr PNone, commit_and_notify env account_id (get_existing_data env) st w')"
    using assms(2,3) ne by (simp add: process_gmail_account_def)
  then show ?thesis
    using assms(1,4) inv
    by (simp add: commit_and_notify_def Let_def send_notifications_def append_to_sheet_keeps)
qed

theorem notifications_when_available_witness:
  "telegram_available available_env \<and>
   length (all_data_rows (fst (snd (process_loop available_env
       (email_processor_user_id available_env ''acct'') (get_existing_data available_env)
       (emails available_env) init_staged world0)))) = 7 \<and>
   notifications (snd (process_gmail_account available_env ''acct'' world0)) =
     [BatchNotification 6 ''acct''] \<and>
   notifications (snd (process_gmail_account pair_env ''acct'' world0)) =
     [TransactionNotification
        [(''date'', PStr ''2024-01-01''), (''amount'', PInt 0), (''category'', PStr ''Lainnya''),
         (''description'', PStr ''a'')] ''acct'',
      TransactionNotification
        [(''date'', PStr ''2024-01-01''), (''amount'', PInt 0), (''category'', PStr ''Lainnya''),
         (''description'', PStr ''b'')] ''acct'']"
proof -
  obtain st2 w2 where l2: "process_loop pair_env
       (email_processor_user_id pair_env ''acct'') (get_existing_data pair_env)
       (emails pair_env) init_staged world0 = (None, st2, w2)"
    and n2: "length (all_data_rows st2) = 3"
    and p2: "processed_transactions st2 =
      [[(''date'', PStr ''2024-01-01''), (''amount'', PInt 0), (''category'', PStr ''Lainnya''),
        (''description'', PStr ''a'')],
       [(''date'', PStr ''2024-01-01''), (''amount'', PInt 0), (''category'', PStr ''Lainnya''),
        (''description'', PStr ''b'')]]"
    by (simp add: run_defs sample_defs model_defs)
  have t2: "telegram_available pair_env"
    by (simp add: pair_env_def available_env_def)
  have s2: "setup_error pair_env = None"
    by (simp add: pair_env_def available_env_def sample_env_def)
  have g2: "length (all_data_rows st2) > 1" using n2 by simp
  have small: "notifications (snd (process_gmail_account pair_env ''acct'' world0)) =
      map (\<lambda>t. TransactionNotification t ''acct'') (processed_transactions st2)"
    using notifications_when_available [OF t2 s2 l2 g2] n2 by (simp add: world0_def)
  obtain st w' where l: "process_loop available_env
       (email_processor_user_id available_env ''acct'') (get_existing_data available_env)
       (emails available_env) init_staged world0 = (None, st, w')"
    and n: "length (all_data_rows st) = 7"
    by (simp add: run_defs sample_defs model_defs)
  have t: "telegram_available available_env"
    by (simp add: available_env_def)
  have s: "setup_error available_env = None"
    by (simp add: available_env_def sample_env_def)
  have g: "length (all_data_rows st) > 1" using n by simp
  from notifications_when_available [OF t s l g] t l n small p2 show ?thesis
    by (simp add: world0_def)
qed

text \<open>Nothing the run does before the append depends on how the append request ends.\<close>

lemma html_feed_append_indep:
  "html_feed (env\<lparr>sheets_append := f\<rparr>) h = html_feed env h"
  by (simp add: html_feed_def split: option.splits)

lemma decode_append_indep:
  "decode_plain (env\<lparr>sheets_append := f\<rparr>) d = decode_plain env d"
  "decode_html (env\<lparr>sheets_append := f\<rparr>) d = decode_html env d"
  by (simp_all add: decode_plain_def decode_html_def html_feed_append_indep split: option.splits)

lemma extract_append_indep:
  "extract_email_body (env\<lparr>sheets_append := f\<rparr>) p = extract_email_body env p"
  "extract_parts (env\<lparr>sheets_append := f\<rparr>) ps = extract_parts env ps"
  by (induction env p and env ps rule: extract_email_body_extract_parts.induct)
    (auto simp: decode_append_indep Let_def split: option.splits sum.splits)

lemma py_float_append_indep: "py_float (env\<lparr>sheets_append := f\<rparr>) v = py_float env v"
  by (simp add: py_float_def split: pyval.splits)

lemma sign_amount_append_indep:
  "sign_amount (env\<lparr>sheets_append := f\<rparr>) d = sign_amount env d"
  by (simp add: sign_amount_def py_float_append_indep)

lemma clean_response_append_indep:
  "clean_response (env\<lparr>sheets_append := f\<rparr>) r = clean_response env r"
  by (simp add: clean_response_def split: sum.splits)

lemma parse_body_append_indep:
  "parse_body (env\<lparr>sheets_append := f\<rparr>) t = parse_body env t"
  by (simp add: parse_body_def clean_response_append_indep sign_amount_append_indep
      split: sum.splits option.splits pyval.splits)

lemma parse_append_indep:
  "parse_email_with_gemini (env\<lparr>sheets_append := f\<rparr>) t = parse_email_with_gemini env t"
  by (simp add: parse_email_with_gemini_def parse_body_append_indep)

lemma fields_match_append_indep:
  "fields_match (env\<lparr>sheets_append := f\<rparr>) n e fs = fields_match env n e fs"
  by (induction fs) (simp_all add: py_str_def split: pyval.splits)

lemma is_duplicate_append_indep:
  "is_duplicate (env\<lparr>sheets_append := f\<rparr>) n es = is_duplicate env n es"
  by (induction es) (simp_all add: fields_match_append_indep)

lemma make_append_indep:
  "make_entry (env\<lparr>sheets_append := f\<rparr>) d = make_entry env d"
  "make_row (env\<lparr>sheets_append := f\<rparr>) u e = make_row env u e"
  by (simp_all add: make_entry_def make_row_def)

lemma process_loop_append_indep:
  "process_loop (env\<lparr>sheets_append := f\<rparr>) u ex es st w = process_loop env u ex es st w"
  by (induction es arbitrary: st w)
    (auto simp: extract_append_indep parse_append_indep is_duplicate_append_indep
      make_append_indep split: sum.splits option.splits)

text \<open>
  C9, the claim as stated fails: with the append request refused, six messages are marked
  handled and no row is stored, yet the caller gets \<^verbatim>\<open>None\<close>, as it does from a run
  without candidates and from a run whose only classification fails.
\<close>

theorem commit_failure_counterexample:
  "handled (snd (process_gmail_account failing_env ''acct'' world0)) =
     [''m1'', ''m2'', ''m3'', ''m4'', ''m5'', ''m6''] \<and>
   appended (snd (process_gmail_account failing_env ''acct'' world0)) = [] \<and>
   fst (process_gmail_account failing_env ''acct'' world0) = Inr PNone \<and>
   fst (process_gmail_account idle_env ''acct'' world0) = Inr PNone \<and>
   fst (process_gmail_account unparsed_env ''acct'' world0) = Inr PNone"
  by (simp add: run_defs sample_defs model_defs)

text \<open>
  C9 as amended. A failure of the batched append is caught inside \<^verbatim>\<open>append_to_sheet\<close>:
  the run returns \<^verbatim>\<open>None\<close> as every run does, and it ends in the world of the same run
  with any other outcome of the append, but for the rows stored: the same messages are
  marked handled, the same notifications are sent, and no row is added.
\<close>

theorem append_failure_swallowed:
  "fst (process_gmail_account env account_id w) = Inr PNone \<and>
   process_gmail_account (env\<lparr>sheets_append := (\<lambda>rows. False)\<rparr>) account_id w =
     (Inr PNone, (snd (process_gmail_account env account_id w))\<lparr>appended := appended w\<rparr>)"
proof -
  let ?env = "env\<lparr>sheets_append := (\<lambda>rows. False)\<rparr>"
  let ?u = "email_processor_user_id env account_id"
  let ?ex = "get_existing_data env"
  obtain r st w' where l: "process_loop env ?u ?ex (emails env) init_staged w = (r, st, w')"
    by (cases "process_loop env ?u ?ex (emails env) init_staged w") auto
  then have l': "process_loop ?env ?u ?ex (emails env) init_staged w = (r, st, w')"
    by (simp add: process_loop_append_indep)
  have inv: "appended w' = appended w"
    using process_loop_invariant [OF l] by simp
  have eq: "email_processor_user_id ?env account_id = ?u" "get_existing_data ?env = ?ex"
    by (simp_all add: email_processor_user_id_def get_existing_data_def)
  have ret: "fst (process_gmail_account env account_id w) = Inr PNone"
    using l by (cases r) (auto simp: process_gmail_account_def split: option.splits)
  have c: "commit_and_notify ?env account_id ?ex st w' =
           (commit_and_notify env account_id ?ex st w')\<lparr>appended := appended w\<rparr>"
    using inv
    by (simp add: commit_and_notify_def append_to_sheet_def send_notifications_def Let_def)
  have "process_gmail_account ?env account_id w =
     (Inr PNone, (snd (process_gmail_account env account_id w))\<lparr>appended := appended w\<rparr>)"
    using l l' eq c inv
    by (cases r) (auto simp: process_gmail_account_def split: option.splits)
  with ret show ?thesis by simp
qed

end
